theory Spec2Isabelle
  imports Complex_Main "HOL-Library.Sublist"
begin

section \<open>The fitness tracker module \<^verbatim>\<open>homework.py\<close>\<close>

text \<open>
  The module turns one package of sensor readings into a line of text: the kind of
  training, its duration, the distance covered, the mean speed and the calories spent.

  Conventions of the embedding.
  \<^item> A Python number (\<^verbatim>\<open>int\<close> or \<^verbatim>\<open>float\<close>) is modelled by the real number it
    denotes, and the arithmetic is exact: rounding, infinities and NaN of binary
    floating point are outside the model. The annotations of the dataclass
    fields are not enforced by Python (the module's own \<^verbatim>\<open>__main__\<close> block passes the
    \<^verbatim>\<open>int\<close> 1 as the \<^verbatim>\<open>float\<close> duration), so every numeric field is a real.
  \<^item> The methods are modelled for operands in the range of \<^verbatim>\<open>float\<close>. What the base
    class does with an \<^verbatim>\<open>int\<close> beyond that range is modelled apart, in
    \<open>get_distance_checked\<close> and \<open>Training_get_mean_speed_checked\<close>.
  \<^item> The exact model is within rounding of the program where the arithmetic is
    continuous. The walking formula floors a quotient, and there a rounding in the last
    place of the speed can change the result by a whole unit (13000 steps in 0.65 h:
    the exact speed is 13, the computed one is just below it); no property of the
    walking calories is stated.
  \<^item> A Python \<^verbatim>\<open>str\<close> is modelled by the \<open>string\<close> of its UTF-8 bytes, the encoding of
    the source file. The Cyrillic labels of the message are written byte by byte.
  \<^item> An exception is the left injection of a sum; a Python function that can return
    \<^verbatim>\<open>None\<close> returns an \<open>option\<close>.
\<close>

subsection \<open>Errors\<close>

datatype py_error =
  ZeroDivisionError | OverflowError | TypeError | NotImplementedError | AttributeError

type_synonym 'a result = "py_error + 'a"

subsection \<open>InfoMessage\<close>

text \<open>
  The dataclass \<^verbatim>\<open>InfoMessage\<close>; the constructor takes the five fields in the order of
  their declaration: \<^verbatim>\<open>training_type, duration, distance, speed, calories\<close>.
\<close>

datatype InfoMessage = InfoMessage string real real real real

text \<open>Decimal digits of a natural number, most significant first (no leading zero).\<close>

definition digit_char :: "nat \<Rightarrow> char" where
  "digit_char d = ''0123456789'' ! d"

fun str_nat :: "nat \<Rightarrow> string" where
  "str_nat n = (if n < 10 then [digit_char n] else str_nat (n div 10) @ [digit_char (n mod 10)])"

declare str_nat.simps [simp del]

text \<open>
  Rounding to the nearest integer, a tie going to the even neighbour: the rounding of
  Python's decimal formatting of an exactly known value.
\<close>

definition round_half_even :: "real \<Rightarrow> int" where
  "round_half_even x =
     (let f = \<lfloor>x\<rfloor>; r = x - of_int f
      in if r < 1 / 2 then f
         else if 1 / 2 < r then f + 1
         else if even f then f else f + 1)"

text \<open>
  The format specification \<^verbatim>\<open>:.3f\<close>: a minus sign for a negative value (kept even when
  the digits round to zero), the integer part, a point, and exactly three decimals.
\<close>

definition format_3f :: "real \<Rightarrow> string" where
  "format_3f x =
     (let n = nat (round_half_even (\<bar>x\<bar> * 1000))
      in (if x < 0 then ''-'' else '''') @ str_nat (n div 1000) @ ''.'' @
         [digit_char (n div 100 mod 10), digit_char (n div 10 mod 10), digit_char (n mod 10)])"

text \<open>
  What a three-decimal fixed-point rendering of \<open>x\<close> is: an optional minus sign, a
  non-empty run of digits, a point and exactly three digits, the number they denote
  being within half a thousandth of the magnitude of \<open>x\<close>.
\<close>

definition digit_val :: "char \<Rightarrow> nat" where
  "digit_val c = of_char c - 48"

definition dec_val :: "string \<Rightarrow> nat" where
  "dec_val s = foldl (\<lambda>acc c. 10 * acc + digit_val c) 0 s"

definition is_3f :: "real \<Rightarrow> string \<Rightarrow> bool" where
  "is_3f x s =
     (\<exists>ip fp. s = (if x < 0 then ''-'' else '''') @ ip @ ''.'' @ fp
        \<and> ip \<noteq> [] \<and> set ip \<subseteq> set ''0123456789''
        \<and> length fp = 3 \<and> set fp \<subseteq> set ''0123456789''
        \<and> \<bar>real (dec_val ip) + real (dec_val fp) / 1000 - \<bar>x\<bar>\<bar> \<le> 1 / 2000)"

text \<open>The five literal pieces of the f-string of \<^verbatim>\<open>get_message\<close>, as UTF-8 bytes.\<close>

definition label_training_type :: string where
  "label_training_type =
     [CHR 0xD0, CHR 0xA2, CHR 0xD0, CHR 0xB8, CHR 0xD0, CHR 0xBF, CHR '' '',
      CHR 0xD1, CHR 0x82, CHR 0xD1, CHR 0x80, CHR 0xD0, CHR 0xB5, CHR 0xD0, CHR 0xBD,
      CHR 0xD0, CHR 0xB8, CHR 0xD1, CHR 0x80, CHR 0xD0, CHR 0xBE, CHR 0xD0, CHR 0xB2,
      CHR 0xD0, CHR 0xBA, CHR 0xD0, CHR 0xB8, CHR '':'', CHR '' '']"

definition label_duration :: string where
  "label_duration =
     [CHR '';'', CHR '' '',
      CHR 0xD0, CHR 0x94, CHR 0xD0, CHR 0xBB, CHR 0xD0, CHR 0xB8, CHR 0xD1, CHR 0x82,
      CHR 0xD0, CHR 0xB5, CHR 0xD0, CHR 0xBB, CHR 0xD1, CHR 0x8C, CHR 0xD0, CHR 0xBD,
      CHR 0xD0, CHR 0xBE, CHR 0xD1, CHR 0x81, CHR 0xD1, CHR 0x82, CHR 0xD1, CHR 0x8C,
      CHR '':'', CHR '' '']"

definition label_distance :: string where
  "label_distance =
     [CHR '' '', CHR 0xD1, CHR 0x87, CHR ''.'', CHR '';'', CHR '' '',
      CHR 0xD0, CHR 0x94, CHR 0xD0, CHR 0xB8, CHR 0xD1, CHR 0x81, CHR 0xD1, CHR 0x82,
      CHR 0xD0, CHR 0xB0, CHR 0xD0, CHR 0xBD, CHR 0xD1, CHR 0x86, CHR 0xD0, CHR 0xB8,
      CHR 0xD1, CHR 0x8F, CHR '':'', CHR '' '']"

definition label_speed :: string where
  "label_speed =
     [CHR '' '', CHR 0xD0, CHR 0xBA, CHR 0xD0, CHR 0xBC, CHR '';'', CHR '' '',
      CHR 0xD0, CHR 0xA1, CHR 0xD1, CHR 0x80, CHR ''.'', CHR '' '',
      CHR 0xD1, CHR 0x81, CHR 0xD0, CHR 0xBA, CHR 0xD0, CHR 0xBE, CHR 0xD1, CHR 0x80,
      CHR 0xD0, CHR 0xBE, CHR 0xD1, CHR 0x81, CHR 0xD1, CHR 0x82, CHR 0xD1, CHR 0x8C,
      CHR '':'', CHR '' '']"

definition label_calories :: string where
  "label_calories =
     [CHR '' '', CHR 0xD0, CHR 0xBA, CHR 0xD0, CHR 0xBC, CHR ''/'', CHR 0xD1, CHR 0x87,
      CHR '';'', CHR '' '',
      CHR 0xD0, CHR 0x9F, CHR 0xD0, CHR 0xBE, CHR 0xD1, CHR 0x82, CHR 0xD1, CHR 0x80,
      CHR 0xD0, CHR 0xB0, CHR 0xD1, CHR 0x87, CHR 0xD0, CHR 0xB5, CHR 0xD0, CHR 0xBD,
      CHR 0xD0, CHR 0xBE, CHR '' '',
      CHR 0xD0, CHR 0xBA, CHR 0xD0, CHR 0xBA, CHR 0xD0, CHR 0xB0, CHR 0xD0, CHR 0xBB,
      CHR '':'', CHR '' '']"

fun get_message :: "InfoMessage \<Rightarrow> string" where
  "get_message (InfoMessage training_type duration distance speed calories) =
     label_training_type @ training_type @
     label_duration @ format_3f duration @
     label_distance @ format_3f distance @
     label_speed @ format_3f speed @
     label_calories @ format_3f calories @ ''.''"

text \<open>
  The text of the English rendering of the message, as the specification words it:
  the same five fields between English labels.
\<close>

definition spec_message :: "InfoMessage \<Rightarrow> string" where
  "spec_message m =
     (case m of InfoMessage training_type duration distance speed calories \<Rightarrow>
        ''Activity type: '' @ training_type @
        ''; Duration: '' @ format_3f duration @
        '' h; Distance: '' @ format_3f distance @
        '' km; Avg speed: '' @ format_3f speed @
        '' km/h; Calories burned: '' @ format_3f calories @ ''.'')"

subsection \<open>The trainings\<close>

text \<open>
  The three concrete classes, each with the fields its constructor takes, in order.
  \<^verbatim>\<open>Running\<close> declares no field of its own and inherits the constructor of
  \<^verbatim>\<open>Training\<close>. The base class itself is abstract (its \<^verbatim>\<open>get_spent_calories\<close> only
  raises) and \<^verbatim>\<open>read_package\<close> never builds it; its methods are the functions
  \<open>get_distance\<close>, \<open>Training_get_mean_speed\<close> and \<open>Training_get_spent_calories\<close> below.
\<close>

datatype training =
    Running (action: real) (duration: real) (weight: real)
  | SportsWalking (action: real) (duration: real) (weight: real) (height: real)
  | Swimming (action: real) (duration: real) (weight: real)
      (length_pool: real) (count_pool: real)

text \<open>\<^verbatim>\<open>self.__class__.__name__\<close>\<close>

fun class_name :: "training \<Rightarrow> string" where
  "class_name (Running _ _ _) = ''Running''"
| "class_name (SportsWalking _ _ _ _) = ''SportsWalking''"
| "class_name (Swimming _ _ _ _ _) = ''Swimming''"

definition M_IN_KM :: real where
  "M_IN_KM = 1000"

text \<open>\<^verbatim>\<open>LEN_STEP\<close> is 0.65 in \<^verbatim>\<open>Training\<close>; \<^verbatim>\<open>Swimming\<close> overrides it with 1.38.\<close>

fun LEN_STEP :: "training \<Rightarrow> real" where
  "LEN_STEP (Swimming _ _ _ _ _) = 1.38"
| "LEN_STEP _ = 0.65"

definition get_distance :: "training \<Rightarrow> real" where
  "get_distance t = action t * LEN_STEP t / M_IN_KM"

text \<open>Python's true division \<^verbatim>\<open>/\<close> and floor division \<^verbatim>\<open>//\<close> raise on a zero divisor.\<close>

definition truediv :: "real \<Rightarrow> real \<Rightarrow> real result" where
  "truediv x y = (if y = 0 then Inl ZeroDivisionError else Inr (x / y))"

definition floordiv :: "real \<Rightarrow> real \<Rightarrow> real result" where
  "floordiv x y = (if y = 0 then Inl ZeroDivisionError else Inr (of_int \<lfloor>x / y\<rfloor>))"

text \<open>
  \<^verbatim>\<open>Training.get_mean_speed\<close> and \<^verbatim>\<open>Training.get_spent_calories\<close>, the methods of the
  base class; every concrete class overrides the second. \<open>Training_get_mean_speed\<close> is
  the method for operands in the range of \<^verbatim>\<open>float\<close>; \<open>Training_get_mean_speed_checked\<close>
  below is the method for every operand, with the \<^verbatim>\<open>OverflowError\<close> of an \<^verbatim>\<open>int\<close> out of
  range.
\<close>

definition Training_get_spent_calories :: "training \<Rightarrow> real result" where
  "Training_get_spent_calories t = Inl NotImplementedError"

definition Training_get_mean_speed :: "training \<Rightarrow> real result" where
  "Training_get_mean_speed t = truediv (get_distance t) (duration t)"

text \<open>
  Operands beyond the range of \<^verbatim>\<open>float\<close>. An arithmetic operation on an \<^verbatim>\<open>int\<close> and a
  \<^verbatim>\<open>float\<close> first converts the \<^verbatim>\<open>int\<close>, rounding to the nearest \<^verbatim>\<open>float\<close>, and the
  conversion raises \<^verbatim>\<open>OverflowError\<close> when the rounded magnitude would reach \<open>2 ^ 1024\<close>:
  from \<open>2 ^ 1024 - 2 ^ 970\<close> on. Every finite \<^verbatim>\<open>float\<close> is below that bound, so a number
  that reaches it is an \<^verbatim>\<open>int\<close>, and a number below it is converted (or is a
  \<^verbatim>\<open>float\<close> already) without an exception. A \<^verbatim>\<open>float\<close> operation that overflows raises
  nothing: it returns an infinity.
\<close>

definition float_limit :: real where
  "float_limit = 2 ^ 1024 - 2 ^ 970"

definition as_float :: "real \<Rightarrow> real result" where
  "as_float x = (if float_limit \<le> \<bar>x\<bar> then Inl OverflowError else Inr x)"

text \<open>
  \<^verbatim>\<open>get_distance\<close> and \<^verbatim>\<open>Training.get_mean_speed\<close> with these conversions written out, in
  the order of evaluation: \<^verbatim>\<open>self.action * self.LEN_STEP\<close> converts the action,
  \<^verbatim>\<open>self.get_distance() / self.duration\<close> converts the duration and then tests it
  for zero.
\<close>

definition get_distance_checked :: "training \<Rightarrow> real result" where
  "get_distance_checked t =
     (case as_float (action t) of
        Inl e \<Rightarrow> Inl e
      | Inr a \<Rightarrow> Inr (a * LEN_STEP t / M_IN_KM))"

definition Training_get_mean_speed_checked :: "training \<Rightarrow> real result" where
  "Training_get_mean_speed_checked t =
     (case get_distance_checked t of
        Inl e \<Rightarrow> Inl e
      | Inr distance \<Rightarrow>
          (case as_float (duration t) of
             Inl e \<Rightarrow> Inl e
           | Inr d \<Rightarrow> truediv distance d))"

text \<open>\<^verbatim>\<open>get_mean_speed\<close> as dispatched: \<^verbatim>\<open>Swimming\<close> overrides it.\<close>

fun get_mean_speed :: "training \<Rightarrow> real result" where
  "get_mean_speed (Swimming a d w lp cp) = truediv (lp * cp / M_IN_KM) d"
| "get_mean_speed t = Training_get_mean_speed t"

definition Running_COEFF_CALORIE_1 :: real where "Running_COEFF_CALORIE_1 = 18"
definition Running_COEFF_CALORIE_2 :: real where "Running_COEFF_CALORIE_2 = 20"
definition Running_COEFF_CALORIE_3 :: real where "Running_COEFF_CALORIE_3 = 60"

definition SportsWalking_COEFF_CALORIE_1 :: real where "SportsWalking_COEFF_CALORIE_1 = 0.035"
definition SportsWalking_COEFF_CALORIE_2 :: real where "SportsWalking_COEFF_CALORIE_2 = 0.029"
definition SportsWalking_COEFF_CALORIE_3 :: real where "SportsWalking_COEFF_CALORIE_3 = 60"

definition Swimming_COEFF_CALORIE_1 :: real where "Swimming_COEFF_CALORIE_1 = 1.1"
definition Swimming_COEFF_CALORIE_2 :: real where "Swimming_COEFF_CALORIE_2 = 2"

text \<open>
  \<^verbatim>\<open>get_spent_calories\<close> of the three classes. Each one first calls
  \<^verbatim>\<open>self.get_mean_speed()\<close>, whose exception it lets through. The walking clause is
  the formula in exact arithmetic: its floor is taken of the exact quotient, which the
  program's rounded quotient can miss by a whole unit where the exact one is a whole
  number or next to one.
\<close>

fun get_spent_calories :: "training \<Rightarrow> real result" where
  "get_spent_calories (Running a d w) =
     (case get_mean_speed (Running a d w) of
        Inl e \<Rightarrow> Inl e
      | Inr average_speed \<Rightarrow>
          Inr ((Running_COEFF_CALORIE_1 * average_speed - Running_COEFF_CALORIE_2)
               * w / M_IN_KM
               * (d * Running_COEFF_CALORIE_3)))"
| "get_spent_calories (SportsWalking a d w h) =
     (case get_mean_speed (SportsWalking a d w h) of
        Inl e \<Rightarrow> Inl e
      | Inr average_speed \<Rightarrow>
          (case floordiv (average_speed ^ 2) h of
             Inl e \<Rightarrow> Inl e
           | Inr q \<Rightarrow>
               Inr ((SportsWalking_COEFF_CALORIE_1 * w
                     + q * SportsWalking_COEFF_CALORIE_2 * w)
                    * (d * SportsWalking_COEFF_CALORIE_3))))"
| "get_spent_calories (Swimming a d w lp cp) =
     (case get_mean_speed (Swimming a d w lp cp) of
        Inl e \<Rightarrow> Inl e
      | Inr average_speed \<Rightarrow>
          Inr ((average_speed + Swimming_COEFF_CALORIE_1)
               * Swimming_COEFF_CALORIE_2 * w))"

text \<open>
  \<^verbatim>\<open>show_training_info\<close>: the arguments of the constructor are evaluated left to right,
  so a failing \<^verbatim>\<open>get_mean_speed\<close> is met before \<^verbatim>\<open>get_spent_calories\<close>
  (\<^verbatim>\<open>get_distance\<close> cannot fail).
\<close>

definition show_training_info :: "training \<Rightarrow> InfoMessage result" where
  "show_training_info t =
     (case get_mean_speed t of
        Inl e \<Rightarrow> Inl e
      | Inr s \<Rightarrow>
          (case get_spent_calories t of
             Inl e \<Rightarrow> Inl e
           | Inr c \<Rightarrow> Inr (InfoMessage (class_name t) (duration t) (get_distance t) s c)))"

subsection \<open>Reading a package\<close>

datatype workout_class = Running_class | SportsWalking_class | Swimming_class

text \<open>
  \<^verbatim>\<open>workout_class(*data)\<close>: the generated constructor takes exactly as many positional
  arguments as the class has fields and raises \<^verbatim>\<open>TypeError\<close> otherwise.
\<close>

fun construct :: "workout_class \<Rightarrow> real list \<Rightarrow> training result" where
  "construct Running_class [a, d, w] = Inr (Running a d w)"
| "construct SportsWalking_class [a, d, w, h] = Inr (SportsWalking a d w h)"
| "construct Swimming_class [a, d, w, lp, cp] = Inr (Swimming a d w lp cp)"
| "construct _ _ = Inl TypeError"

text \<open>The dictionary \<^verbatim>\<open>conformity\<close>, in the order in which \<^verbatim>\<open>items()\<close> yields its entries.\<close>

definition conformity :: "(string \<times> workout_class) list" where
  "conformity =
     [(''RUN'', Running_class), (''WLK'', SportsWalking_class), (''SWM'', Swimming_class)]"

text \<open>
  The loop of \<^verbatim>\<open>read_package\<close> over the remaining entries: the first key that occurs in
  \<^verbatim>\<open>workout_type\<close> (Python's \<^verbatim>\<open>in\<close> on strings is \<open>sublist\<close>) decides. When the entries
  are used up the function ends without a \<^verbatim>\<open>return\<close>, so its value is \<^verbatim>\<open>None\<close>.
\<close>

fun read_package_loop ::
  "(string \<times> workout_class) list \<Rightarrow> string \<Rightarrow> real list \<Rightarrow> training option result" where
  "read_package_loop [] workout_type data = Inr None"
| "read_package_loop ((workout, cls) # rest) workout_type data =
     (if sublist workout workout_type
      then (case construct cls data of Inl e \<Rightarrow> Inl e | Inr t \<Rightarrow> Inr (Some t))
      else read_package_loop rest workout_type data)"

definition read_package :: "string \<Rightarrow> real list \<Rightarrow> training option result" where
  "read_package workout_type data = read_package_loop conformity workout_type data"

text \<open>
  \<^verbatim>\<open>main\<close> prints one line; the model returns it. The argument is whatever
  \<^verbatim>\<open>read_package\<close> returned: on \<^verbatim>\<open>None\<close> the attribute access
  \<^verbatim>\<open>training.show_training_info\<close> raises \<^verbatim>\<open>AttributeError\<close>.
\<close>

definition main :: "training option \<Rightarrow> string result" where
  "main training =
     (case training of
        None \<Rightarrow> Inl AttributeError
      | Some t \<Rightarrow>
          (case show_training_info t of
             Inl e \<Rightarrow> Inl e
           | Inr info \<Rightarrow> Inr (get_message info)))"

text \<open>
  One turn of the loop of the \<^verbatim>\<open>__main__\<close> block:
  \<^verbatim>\<open>training = read_package(workout_type, data); main(training)\<close>.
\<close>

definition process_package :: "string \<Rightarrow> real list \<Rightarrow> string result" where
  "process_package workout_type data =
     (case read_package workout_type data of
        Inl e \<Rightarrow> Inl e
      | Inr training \<Rightarrow> main training)"

section \<open>Properties\<close>

subsection \<open>The format \<^verbatim>\<open>:.3f\<close>\<close>

lemma digit_cases: "d < 10 \<Longrightarrow> d = 0 \<or> d = 1 \<or> d = 2 \<or> d = 3 \<or> d = 4 \<or> d = 5 \<or> d = 6 \<or> d = 7 \<or> d = 8 \<or> d = (9::nat)"
  by arith

lemma digit_val_digit_char: "d < 10 \<Longrightarrow> digit_val (digit_char d) = d"
  using digit_cases [of d] by (auto simp: digit_val_def digit_char_def)

lemma digit_char_in: "d < 10 \<Longrightarrow> digit_char d \<in> set ''0123456789''"
  using digit_cases [of d] by (auto simp: digit_char_def)

lemma dec_val_snoc: "dec_val (s @ [c]) = 10 * dec_val s + digit_val c"
  by (simp add: dec_val_def)

lemma str_nat_nonempty: "str_nat n \<noteq> []"
  by (subst str_nat.simps) simp

lemma str_nat_digits: "set (str_nat n) \<subseteq> set ''0123456789''"
proof (induction n rule: str_nat.induct)
  case (1 n)
  show ?case
  proof (cases "n < 10")
    case True
    then show ?thesis using digit_char_in [of n] by (subst str_nat.simps) simp
  next
    case False
    have "n mod 10 < 10" by simp
    then have "digit_char (n mod 10) \<in> set ''0123456789''" by (rule digit_char_in)
    with False 1 show ?thesis by (subst str_nat.simps) simp
  qed
qed

lemma dec_val_str_nat: "dec_val (str_nat n) = n"
proof (induction n rule: str_nat.induct)
  case (1 n)
  show ?case
  proof (cases "n < 10")
    case True
    then show ?thesis
      by (subst str_nat.simps) (simp add: dec_val_def digit_val_digit_char)
  next
    case False
    with 1 have "dec_val (str_nat (n div 10)) = n div 10" by simp
    with False show ?thesis
      by (subst str_nat.simps) (simp add: dec_val_snoc digit_val_digit_char)
  qed
qed

lemma dec_val_three:
  "dec_val [digit_char (n div 100 mod 10), digit_char (n div 10 mod 10), digit_char (n mod 10)]
     = n mod 1000"
proof -
  have "dec_val [digit_char (n div 100 mod 10), digit_char (n div 10 mod 10), digit_char (n mod 10)]
      = 100 * (n div 100 mod 10) + 10 * (n div 10 mod 10) + n mod 10"
    by (simp add: dec_val_def digit_val_digit_char)
  also have "\<dots> = n mod 1000"
  proof -
    have a: "n mod (10 * 100) = 10 * (n div 10 mod 100) + n mod 10"
      by (rule mod_mult2_eq)
    have b: "n div 10 mod (10 * 10) = 10 * (n div 10 div 10 mod 10) + n div 10 mod 10"
      by (rule mod_mult2_eq)
    have c: "n div 10 div 10 = n div (10 * 10)"
      by (rule div_mult2_eq [symmetric])
    from a b c show ?thesis by simp
  qed
  finally show ?thesis .
qed

lemma round_half_even_near: "\<bar>real_of_int (round_half_even y) - y\<bar> \<le> 1 / 2"
  unfolding round_half_even_def Let_def by (auto; linarith)

lemma round_half_even_nonneg: "0 \<le> y \<Longrightarrow> 0 \<le> round_half_even y"
  unfolding round_half_even_def Let_def by (auto; linarith)

lemma format_3f_is_3f: "is_3f x (format_3f x)"
proof -
  define n where "n = nat (round_half_even (\<bar>x\<bar> * 1000))"
  define ip where "ip = str_nat (n div 1000)"
  define fp where "fp = [digit_char (n div 100 mod 10), digit_char (n div 10 mod 10), digit_char (n mod 10)]"
  have fmt: "format_3f x = (if x < 0 then ''-'' else '''') @ ip @ ''.'' @ fp"
    by (simp add: format_3f_def Let_def n_def ip_def fp_def)
  have "0 \<le> round_half_even (\<bar>x\<bar> * 1000)" by (rule round_half_even_nonneg) simp
  then have rn: "real n = real_of_int (round_half_even (\<bar>x\<bar> * 1000))" by (simp add: n_def)
  have "\<bar>real n - \<bar>x\<bar> * 1000\<bar> \<le> 1 / 2" unfolding rn by (rule round_half_even_near)
  then have near: "\<bar>real n / 1000 - \<bar>x\<bar>\<bar> \<le> 1 / 2000" by (simp add: field_simps abs_le_iff)
  have "n = 1000 * (n div 1000) + n mod 1000" by simp
  then have "real n = 1000 * real (n div 1000) + real (n mod 1000)"
    by (metis of_nat_add of_nat_mult of_nat_numeral)
  then have val: "real (dec_val ip) + real (dec_val fp) / 1000 = real n / 1000"
    by (simp add: ip_def fp_def dec_val_str_nat dec_val_three)
  have d: "set fp \<subseteq> set ''0123456789''"
    using digit_char_in [of "n div 100 mod 10"] digit_char_in [of "n div 10 mod 10"] digit_char_in [of "n mod 10"]
    by (simp add: fp_def)
  have d': "set ip \<subseteq> set ''0123456789''" unfolding ip_def by (rule str_nat_digits)
  have ne: "ip \<noteq> []" unfolding ip_def by (rule str_nat_nonempty)
  have len: "length fp = 3" by (simp add: fp_def)
  have v: "\<bar>real (dec_val ip) + real (dec_val fp) / 1000 - \<bar>x\<bar>\<bar> \<le> 1 / 2000"
    unfolding val by (rule near)
  from fmt ne d' len d v show ?thesis
    unfolding is_3f_def by blast
qed

subsection \<open>Evaluation rules\<close>

lemmas coeffs = M_IN_KM_def Running_COEFF_CALORIE_1_def Running_COEFF_CALORIE_2_def
  Running_COEFF_CALORIE_3_def SportsWalking_COEFF_CALORIE_1_def SportsWalking_COEFF_CALORIE_2_def
  SportsWalking_COEFF_CALORIE_3_def Swimming_COEFF_CALORIE_1_def Swimming_COEFF_CALORIE_2_def

lemmas eval_3f = format_3f_def round_half_even_def str_nat.simps digit_char_def Let_def

subsection \<open>Reading a package\<close>

lemma read_package_no_match:
  "\<not> sublist ''RUN'' workout_type \<Longrightarrow> \<not> sublist ''WLK'' workout_type \<Longrightarrow>
   \<not> sublist ''SWM'' workout_type \<Longrightarrow> read_package workout_type data = Inr None"
  by (simp add: read_package_def conformity_def)

text \<open>
  C1. The claim asks that a code containing none of \<^verbatim>\<open>RUN\<close>, \<^verbatim>\<open>WLK\<close>, \<^verbatim>\<open>SWM\<close> makes
  \<^verbatim>\<open>read_package\<close> fail with an explicit error. The function does not: on the code
  \<^verbatim>\<open>XYZ\<close>, which contains none of the three keys, the loop runs out of entries and
  the call returns \<^verbatim>\<open>None\<close>; no exception is raised there. The \<^verbatim>\<open>__main__\<close> block
  then hands the \<^verbatim>\<open>None\<close> to \<^verbatim>\<open>main\<close>, where it surfaces as an \<^verbatim>\<open>AttributeError\<close>.
\<close>

theorem read_package_unknown_code:
  "\<not> sublist ''RUN'' ''XYZ'' \<and> \<not> sublist ''WLK'' ''XYZ'' \<and> \<not> sublist ''SWM'' ''XYZ''
   \<and> read_package ''XYZ'' [720, 1, 80] = Inr None
   \<and> (\<forall>e. read_package ''XYZ'' [720, 1, 80] \<noteq> Inl e)
   \<and> process_package ''XYZ'' [720, 1, 80] = Inl AttributeError"
  by (simp add: process_package_def main_def read_package_def conformity_def sublist_code)

subsection \<open>The mean speed of the base class, operands in range\<close>

lemma base_speed_value:
  "duration t \<noteq> 0 \<Longrightarrow> Training_get_mean_speed t = Inr (action t * LEN_STEP t / 1000 / duration t)"
  by (simp add: Training_get_mean_speed_def truediv_def get_distance_def M_IN_KM_def)

subsection \<open>Swimming: the mean speed\<close>



lemma show_training_info_Inr:
  "show_training_info t = Inr m \<Longrightarrow>
     \<exists>s c. get_mean_speed t = Inr s \<and> get_spent_calories t = Inr c
       \<and> m = InfoMessage (class_name t) (duration t) (get_distance t) s c"
  by (auto simp: show_training_info_def split: sum.splits)



subsection \<open>Running\<close>



lemma running_calories_below_zero:
  assumes "0 < d" and "0 < w" and "a * 0.65 / 1000 / d < 20 / 18"
  shows "\<exists>c. get_spent_calories (Running a d w) = Inr c \<and> c < 0"
proof -
  define s where "s = a * 0.65 / 1000 / d"
  from assms(3) have "18 * s - 20 < 0" by (simp add: s_def)
  with assms(2) have "(18 * s - 20) * w < 0" by (simp add: mult_neg_pos)
  then have "(18 * s - 20) * w / 1000 < 0" by simp
  moreover from assms(1) have "0 < d * 60" by simp
  ultimately have "(18 * s - 20) * w / 1000 * (d * 60) < 0" by (rule mult_neg_pos)
  moreover from assms(1) have "get_spent_calories (Running a d w)
      = Inr ((18 * s - 20) * w / 1000 * (d * 60))"
    by (simp add: base_speed_value coeffs s_def)
  ultimately show ?thesis by blast
qed

text \<open>
  C9. There is a running record with a whole number of steps, positive duration and
  positive weight, whose mean speed is below \<open>20 / 18\<close> km/h and whose calories are
  strictly negative (1000 steps in one hour at 75 kg: speed 0.65, calories -37.35).
  Nothing bounds the calories of a run from below.
\<close>

theorem running_calories_negative:
  "\<exists>a d w speed calories.
     a \<in> \<nat> \<and> 0 < d \<and> 0 < w
     \<and> get_mean_speed (Running a d w) = Inr speed \<and> speed < 20 / 18
     \<and> get_spent_calories (Running a d w) = Inr calories \<and> calories < 0"
proof -
  have "get_mean_speed (Running 1000 1 75) = Inr 0.65"
    by (simp add: base_speed_value)
  moreover have "get_spent_calories (Running 1000 1 75) = Inr (- 37.35)"
    by (simp add: base_speed_value coeffs)
  moreover have "(1000::real) \<in> \<nat>" by simp
  moreover have "(0.65::real) < 20 / 18" "(- 37.35::real) < 0" "(0::real) < 1" "(0::real) < 75"
    by simp_all
  ultimately show ?thesis by blast
qed

subsection \<open>The distance\<close>



subsection \<open>The failures of the mean speed of the base class\<close>

lemma float_limit_pos: "0 < float_limit"
  by (simp add: float_limit_def)

lemma checked_speed_cases:
  "Training_get_mean_speed_checked t =
     (if float_limit \<le> \<bar>action t\<bar> \<or> float_limit \<le> \<bar>duration t\<bar> then Inl OverflowError
      else if duration t = 0 then Inl ZeroDivisionError
      else Inr (action t * LEN_STEP t / 1000 / duration t))"
  by (simp add: Training_get_mean_speed_checked_def get_distance_checked_def as_float_def
        truediv_def M_IN_KM_def)

lemma base_speed_cases:
  "Training_get_mean_speed t =
     (if duration t = 0 then Inl ZeroDivisionError
      else Inr (action t * LEN_STEP t / 1000 / duration t))"
  by (simp add: Training_get_mean_speed_def get_distance_def truediv_def M_IN_KM_def)

lemma in_float_range:
  "\<bar>15000::real\<bar> < float_limit" "\<bar>1::real\<bar> < float_limit" "\<bar>- 2::real\<bar> < float_limit"
  "\<bar>0::real\<bar> < float_limit"
  by (simp_all add: float_limit_def)

lemma beyond_float_range: "float_limit \<le> \<bar>10 ^ 400\<bar>"
  by (simp add: float_limit_def)

lemma checked_speed_overflow_action:
  "float_limit \<le> \<bar>a\<bar> \<Longrightarrow> Training_get_mean_speed_checked (Running a d w) = Inl OverflowError"
  by (simp add: checked_speed_cases)

lemma checked_speed_overflow_duration:
  "float_limit \<le> \<bar>d\<bar> \<Longrightarrow> Training_get_mean_speed_checked (Running a d w) = Inl OverflowError"
  by (simp add: checked_speed_cases)

text \<open>
  C7, as claimed: the mean speed of the base class fails exactly when the duration is
  zero, and returns a value for every other duration. It does not: with \<open>10 ^ 400\<close> steps
  and a duration of one hour the multiplication in \<^verbatim>\<open>get_distance\<close> cannot convert the
  steps to a \<^verbatim>\<open>float\<close>, and the call raises \<^verbatim>\<open>OverflowError\<close>, not
  \<^verbatim>\<open>ZeroDivisionError\<close>, although the duration is not zero.
\<close>

theorem base_mean_speed_counterexample:
  "duration (Running (10 ^ 400) 1 75) \<noteq> 0
   \<and> Training_get_mean_speed_checked (Running (10 ^ 400) 1 75) = Inl OverflowError
   \<and> Training_get_mean_speed_checked (Running (10 ^ 400) 1 75) \<noteq> Inl ZeroDivisionError"
proof -
  have b: "Training_get_mean_speed_checked (Running (10 ^ 400) 1 75) = Inl OverflowError"
    using beyond_float_range by (rule checked_speed_overflow_action)
  have c: "Training_get_mean_speed_checked (Running (10 ^ 400) 1 75) \<noteq> Inl ZeroDivisionError"
    unfolding b by simp
  have a: "duration (Running (10 ^ 400) 1 75) \<noteq> 0"
    unfolding training.sel by simp
  from a b c show ?thesis by (intro conjI)
qed

text \<open>
  C7, amended: the mean speed of the base class has two failures and no other.
  It raises \<^verbatim>\<open>OverflowError\<close> exactly when the action or the duration is beyond the range
  of \<^verbatim>\<open>float\<close> (an \<^verbatim>\<open>int\<close> of magnitude \<open>2 ^ 1024 - 2 ^ 970\<close> or more), and
  \<^verbatim>\<open>ZeroDivisionError\<close> exactly when the duration is zero and the action is in range.
  For every other record, negative durations included, it returns
  \<open>action * LEN_STEP / 1000 / duration\<close>, the value of the model for operands in range.
\<close>

theorem base_mean_speed_failures:
  "(Training_get_mean_speed_checked t = Inl OverflowError
      \<longleftrightarrow> float_limit \<le> \<bar>action t\<bar> \<or> float_limit \<le> \<bar>duration t\<bar>)
   \<and> (Training_get_mean_speed_checked t = Inl ZeroDivisionError
      \<longleftrightarrow> duration t = 0 \<and> \<bar>action t\<bar> < float_limit)
   \<and> (\<forall>e. Training_get_mean_speed_checked t = Inl e
      \<longrightarrow> e = ZeroDivisionError \<or> e = OverflowError)
   \<and> (duration t \<noteq> 0 \<and> \<bar>action t\<bar> < float_limit \<and> \<bar>duration t\<bar> < float_limit
      \<longrightarrow> Training_get_mean_speed_checked t = Inr (action t * LEN_STEP t / 1000 / duration t))
   \<and> (\<forall>v. Training_get_mean_speed_checked t = Inr v \<longrightarrow> Training_get_mean_speed t = Inr v)"
proof -
  consider (ovf) "float_limit \<le> \<bar>action t\<bar> \<or> float_limit \<le> \<bar>duration t\<bar>"
    | (zero) "\<bar>action t\<bar> < float_limit" "\<bar>duration t\<bar> < float_limit" "duration t = 0"
    | (ok) "\<bar>action t\<bar> < float_limit" "\<bar>duration t\<bar> < float_limit" "duration t \<noteq> 0"
    by linarith
  then show ?thesis
  proof cases
    case ovf
    then have "Training_get_mean_speed_checked t = Inl OverflowError"
      by (simp add: checked_speed_cases)
    moreover from ovf float_limit_pos have "\<not> (duration t = 0 \<and> \<bar>action t\<bar> < float_limit)"
      by auto
    ultimately show ?thesis using ovf by auto
  next
    case zero
    then have "Training_get_mean_speed_checked t = Inl ZeroDivisionError"
      by (simp add: checked_speed_cases)
    with zero show ?thesis by auto
  next
    case ok
    then have "Training_get_mean_speed_checked t = Inr (action t * LEN_STEP t / 1000 / duration t)"
      by (simp add: checked_speed_cases)
    moreover from ok have "Training_get_mean_speed t = Inr (action t * LEN_STEP t / 1000 / duration t)"
      by (simp add: base_speed_cases)
    ultimately show ?thesis using ok by auto
  qed
qed

theorem base_mean_speed_failures_witness:
  "duration (Running 15000 1 75) \<noteq> 0
   \<and> \<bar>action (Running 15000 1 75)\<bar> < float_limit \<and> \<bar>duration (Running 15000 1 75)\<bar> < float_limit
   \<and> Training_get_mean_speed_checked (Running 15000 1 75) = Inr 9.75
   \<and> Training_get_mean_speed (Running 15000 1 75) = Inr 9.75
   \<and> Training_get_mean_speed_checked (Running 15000 0 75) = Inl ZeroDivisionError
   \<and> Training_get_mean_speed_checked (Running 15000 (10 ^ 400) 75) = Inl OverflowError
   \<and> Training_get_mean_speed_checked (Running (10 ^ 400) 0 75) = Inl OverflowError"
proof -
  note r = in_float_range
  from r base_mean_speed_failures [of "Running 15000 1 75"]
  have a: "Training_get_mean_speed_checked (Running 15000 1 75) = Inr 9.75" by simp
  with base_mean_speed_failures [of "Running 15000 1 75"]
  have b: "Training_get_mean_speed (Running 15000 1 75) = Inr 9.75" by blast
  from r base_mean_speed_failures [of "Running 15000 0 75"]
  have d: "Training_get_mean_speed_checked (Running 15000 0 75) = Inl ZeroDivisionError" by simp
  have e: "Training_get_mean_speed_checked (Running 15000 (10 ^ 400) 75) = Inl OverflowError"
  proof (rule base_mean_speed_failures [THEN conjunct1, THEN iffD2])
    show "float_limit \<le> \<bar>action (Running 15000 (10 ^ 400) 75)\<bar>
        \<or> float_limit \<le> \<bar>duration (Running 15000 (10 ^ 400) 75)\<bar>"
      unfolding training.sel by (rule disjI2) (rule beyond_float_range)
  qed
  have f: "Training_get_mean_speed_checked (Running (10 ^ 400) 0 75) = Inl OverflowError"
  proof (rule base_mean_speed_failures [THEN conjunct1, THEN iffD2])
    show "float_limit \<le> \<bar>action (Running (10 ^ 400) 0 75)\<bar>
        \<or> float_limit \<le> \<bar>duration (Running (10 ^ 400) 0 75)\<bar>"
      unfolding training.sel by (rule disjI1) (rule beyond_float_range)
  qed
  from r a b d have "duration (Running 15000 1 75) \<noteq> 0
   \<and> \<bar>action (Running 15000 1 75)\<bar> < float_limit \<and> \<bar>duration (Running 15000 1 75)\<bar> < float_limit
   \<and> Training_get_mean_speed_checked (Running 15000 1 75) = Inr 9.75
   \<and> Training_get_mean_speed (Running 15000 1 75) = Inr 9.75
   \<and> Training_get_mean_speed_checked (Running 15000 0 75) = Inl ZeroDivisionError"
    by simp
  with e f show ?thesis by (intro conjI) (erule conjE | assumption)+
qed

subsection \<open>The message\<close>

lemma format_3f_1: "format_3f 1 = ''1.000''"
  by (simp add: eval_3f)

lemma format_3f_distance: "format_3f 0.9936 = ''0.994''"
  by (simp add: eval_3f)

lemma format_3f_336: "format_3f 336 = ''336.000''"
  by (simp add: eval_3f)

text \<open>
  C3, as claimed: the message is the English text
  \<^verbatim>\<open>Activity type: ...; Duration: ... h; Distance: ... km; Avg speed: ... km/h; Calories burned: ....\<close>
  It is not: for the summary of the swimming package of the module the English text is
  the one below, and \<^verbatim>\<open>get_message\<close> returns another string (it starts with the byte
  \<open>0xD0\<close> of a Cyrillic letter).
\<close>

theorem get_message_counterexample:
  "spec_message (InfoMessage ''Swimming'' 1 0.9936 1 336)
     = ''Activity type: Swimming; Duration: 1.000 h; Distance: 0.994 km; Avg speed: 1.000 km/h; Calories burned: 336.000.''
   \<and> get_message (InfoMessage ''Swimming'' 1 0.9936 1 336)
     \<noteq> ''Activity type: Swimming; Duration: 1.000 h; Distance: 0.994 km; Avg speed: 1.000 km/h; Calories burned: 336.000.''"
proof -
  have "spec_message (InfoMessage ''Swimming'' 1 0.9936 1 336)
     = ''Activity type: Swimming; Duration: 1.000 h; Distance: 0.994 km; Avg speed: 1.000 km/h; Calories burned: 336.000.''"
    unfolding spec_message_def InfoMessage.case format_3f_1 format_3f_distance format_3f_336
    by (simp only: append.simps)
  moreover have "hd (get_message (InfoMessage ''Swimming'' 1 0.9936 1 336)) = CHR 0xD0"
    by (simp add: label_training_type_def)
  moreover have "hd ''Activity type: Swimming; Duration: 1.000 h; Distance: 0.994 km; Avg speed: 1.000 km/h; Calories burned: 336.000.'' \<noteq> CHR 0xD0"
    by simp
  ultimately show ?thesis by metis
qed

text \<open>
  C3, amended: the message is the five fields between the Russian labels of the source
  (\<open>label_training_type\<close>, \<open>label_duration\<close>, \<open>label_distance\<close>, \<open>label_speed\<close>,
  \<open>label_calories\<close>) and a final full stop, and each of the four numeric fields is
  rendered in fixed point with exactly three decimals.
\<close>

theorem get_message_text:
  "get_message (InfoMessage training_type dur distance speed calories)
     = label_training_type @ training_type
       @ label_duration @ format_3f dur
       @ label_distance @ format_3f distance
       @ label_speed @ format_3f speed
       @ label_calories @ format_3f calories @ ''.''
   \<and> is_3f dur (format_3f dur) \<and> is_3f distance (format_3f distance)
   \<and> is_3f speed (format_3f speed) \<and> is_3f calories (format_3f calories)"
  by (simp add: format_3f_is_3f)

theorem get_message_text_witness:
  "get_message (InfoMessage ''Swimming'' 1 0.9936 1 336)
     = label_training_type @ ''Swimming''
       @ label_duration @ ''1.000''
       @ label_distance @ ''0.994''
       @ label_speed @ ''1.000''
       @ label_calories @ ''336.000'' @ ''.''
   \<and> is_3f 0.9936 ''0.994''"
  using get_message_text [of "''Swimming''" 1 "0.9936" 1 336]
  unfolding format_3f_1 format_3f_distance format_3f_336 by blast

subsection \<open>Swimming: the calories\<close>



subsection \<open>The name in the summary\<close>

lemma read_package_class:
  assumes "read_package workout_type data = Inr (Some t)"
  shows "class_name t =
           (if sublist ''RUN'' workout_type then ''Running''
            else if sublist ''WLK'' workout_type then ''SportsWalking''
            else ''Swimming'')"
proof -
  have c: "construct cls data = Inr t \<Longrightarrow>
      class_name t = (case cls of Running_class \<Rightarrow> ''Running''
        | SportsWalking_class \<Rightarrow> ''SportsWalking'' | Swimming_class \<Rightarrow> ''Swimming'')" for cls
    by (induction cls data rule: construct.induct) auto
  from assms show ?thesis
    by (auto simp: read_package_def conformity_def split: if_splits sum.splits dest: c)
qed

lemma show_training_info_returns:
  assumes "duration t \<noteq> 0" and "\<And>a d w h. t = SportsWalking a d w h \<Longrightarrow> h \<noteq> 0"
  shows "\<exists>s c. show_training_info t
            = Inr (InfoMessage (class_name t) (duration t) (get_distance t) s c)"
  using assms
  by (cases t) (simp_all add: show_training_info_def Training_get_mean_speed_def truediv_def floordiv_def)

text \<open>
  C10. The name in a summary is the name of the class of the record: one of
  \<^verbatim>\<open>Running\<close>, \<^verbatim>\<open>SportsWalking\<close>, \<^verbatim>\<open>Swimming\<close>, never one of the keys \<^verbatim>\<open>RUN\<close>,
  \<^verbatim>\<open>WLK\<close>, \<^verbatim>\<open>SWM\<close> of the dictionary; for a record that \<^verbatim>\<open>read_package\<close> built it
  is the name of the class that the first matching key selected.
\<close>

theorem summary_names_class:
  assumes "show_training_info t = Inr (InfoMessage training_type dur distance speed calories)"
  shows "training_type = class_name t
         \<and> training_type \<in> {''Running'', ''SportsWalking'', ''Swimming''}
         \<and> training_type \<notin> {''RUN'', ''WLK'', ''SWM''}
         \<and> training_type \<notin> fst ` set conformity
         \<and> (read_package workout_type data = Inr (Some t) \<longrightarrow>
              training_type =
                (if sublist ''RUN'' workout_type then ''Running''
                 else if sublist ''WLK'' workout_type then ''SportsWalking''
                 else ''Swimming''))"
proof -
  from show_training_info_Inr [OF assms] have n: "training_type = class_name t" by auto
  have "class_name t \<in> {''Running'', ''SportsWalking'', ''Swimming''}"
    by (cases t) simp_all
  with n show ?thesis
    using read_package_class [of workout_type data t] by (auto simp: conformity_def)
qed

theorem summary_names_class_witness:
  "read_package ''SWM'' [720, 1, 80, 25, 40] = Inr (Some (Swimming 720 1 80 25 40))
   \<and> show_training_info (Swimming 720 1 80 25 40) = Inr (InfoMessage ''Swimming'' 1 0.9936 1 336)
   \<and> ''Swimming'' = class_name (Swimming 720 1 80 25 40)
   \<and> ''Swimming'' \<notin> fst ` set conformity"
proof -
  have s: "show_training_info (Swimming 720 1 80 25 40) = Inr (InfoMessage ''Swimming'' 1 0.9936 1 336)"
    by (simp add: show_training_info_def truediv_def get_distance_def coeffs)
  have r: "read_package ''SWM'' [720, 1, 80, 25, 40] = Inr (Some (Swimming 720 1 80 25 40))"
    by (simp add: read_package_def conformity_def sublist_code)
  from summary_names_class [OF s, of "''SWM''" "[720, 1, 80, 25, 40]"] s r show ?thesis
    by simp
qed

end
